theory Spec2Isabelle
  imports Complex_Main
begin

section \<open>Terminal sticky scroll contribution\<close>

text \<open>
  A shallow embedding of \<^verbatim>\<open>terminal.stickyScroll.contribution.ts\<close>: the class
  \<^verbatim>\<open>TerminalStickyScrollContribution\<close> becomes a record of its private fields, each
  method a function from that record to the record after the call. The objects the class
  only holds references to (the primary terminal, the overlay terminal, the serialize addon,
  the DOM element) are stored once in the record, so a mutation through any alias is an update
  of that one copy. What the collaborators compute (the command for a line, the serialized
  buffer, the theme) is a field holding a function or a value; what the class asks of them
  (writes, scroll requests, serialize calls) is kept as a log in call order.
\<close>

subsection \<open>Data\<close>

text \<open>\<^verbatim>\<open>IMarker\<close> of xterm: only \<^verbatim>\<open>line\<close> is read; \<open>-1\<close> marks a disposed marker.\<close>

record IMarker =
  markerId :: nat
  line :: int

text \<open>
  The command record returned by \<^verbatim>\<open>getCommandForLine\<close>. The source probes it with
  \<^verbatim>\<open>'commandStartMarker' in command\<close> and \<^verbatim>\<open>'marker' in command\<close>: the outer
  \<open>option\<close> is the presence of the key, the inner one its value (both fields are declared
  optional, so a present key may hold \<^verbatim>\<open>undefined\<close>).
\<close>

record command =
  commandStartMarker :: "IMarker option option"
  marker :: "IMarker option option"

text \<open>\<^verbatim>\<open>ScrollPosition\<close> of the mark navigation addon; the source uses \<^verbatim>\<open>Middle\<close>.\<close>

datatype ScrollPosition = Top | Middle

text \<open>
  Modelled from the spec: \<^verbatim>\<open>show\<close>, \<^verbatim>\<open>hide\<close> and \<^verbatim>\<open>setVisibility\<close> of
  \<^verbatim>\<open>vs/base/browser/dom\<close> are imported by the source file but not part of it. The spec
  speaks of the overlay element being "shown" or "hidden"; the element carries that one bit.
\<close>

datatype visibility = Shown | Hidden

record HTMLElement =
  classList :: "string list"
  textContent :: string
  display :: visibility
  isConnected :: bool
  hoverOverlayAppended :: bool

definition dom_show :: "HTMLElement \<Rightarrow> HTMLElement" where
  "dom_show e = e\<lparr>display := Shown\<rparr>"

definition dom_hide :: "HTMLElement \<Rightarrow> HTMLElement" where
  "dom_hide e = e\<lparr>display := Hidden\<rparr>"

definition dom_setVisibility :: "bool \<Rightarrow> HTMLElement \<Rightarrow> HTMLElement" where
  "dom_setVisibility visible e = (if visible then dom_show e else dom_hide e)"

text \<open>The rendered surface of a terminal (\<^verbatim>\<open>raw.element\<close>) and whether it has a parent.\<close>

record XtermElement =
  hasParentElement :: bool

datatype FontWeight = WeightKeyword string | WeightNumber int

type_synonym ITheme = "(string \<times> string) list"

text \<open>The options \<^verbatim>\<open>_syncOptions\<close> reads or sets; all are optional in xterm.\<close>

record ITerminalOptions =
  cursorInactiveStyle :: "string option"
  scrollbackOption :: "int option"
  logLevel :: "string option"
  theme :: "ITheme option"
  documentOverride :: "nat option"
  fontFamily :: "string option"
  fontWeight :: "FontWeight option"
  fontWeightBold :: "FontWeight option"
  fontSize :: "real option"
  letterSpacing :: "real option"
  lineHeight :: "real option"
  drawBoldTextInBrightColors :: "bool option"
  minimumContrastRatio :: "real option"
  tabStopWidth :: "real option"
  overviewRulerWidth :: "real option"

record IBuffer =
  viewportY :: int
  baseY :: int

record IBufferNamespace =
  active :: IBuffer

datatype addon = SerializeAddonRef | CanvasAddonRef

text \<open>
  \<^verbatim>\<open>RawXtermTerminal\<close>, for the primary terminal and for the overlay. \<open>written\<close> is the log
  of \<^verbatim>\<open>write\<close> calls; \<open>renderedText\<close> is the text of the DOM nodes the terminal's renderer
  puts under the element it is opened in (decided by xterm, so an input here).
\<close>

record RawXtermTerminal =
  element :: "XtermElement option"
  cols :: int
  rows :: int
  buffer :: IBufferNamespace
  options :: ITerminalOptions
  written :: "string list"
  loadedAddons :: "addon list"
  opened :: bool
  renderedText :: string

record IXtermTerminal =
  raw :: RawXtermTerminal
  isGpuAccelerated :: bool
  xtermTheme :: ITheme
  scrollToLineCalls :: "(int \<times> ScrollPosition) list"

text \<open>
  The serialize addon: \<open>serialize\<close> maps the \<^verbatim>\<open>scrollback\<close> option to the string the
  addon returns for the primary buffer; \<open>serializeCalls\<close> logs the option of each call.
\<close>

record SerializeAddon =
  serialize :: "int \<Rightarrow> string"
  serializeCalls :: "int list"

record ICommandDetectionCapability =
  getCommandForLine :: "int \<Rightarrow> command option"

text \<open>\<^verbatim>\<open>_instance.capabilities.get(TerminalCapability.CommandDetection)\<close>.\<close>

record ITerminalInstance =
  commandDetection :: "ICommandDetectionCapability option"

text \<open>The private fields of the class (\<^verbatim>\<open>this._xterm\<close> is \<open>this_xterm\<close>, and so on).\<close>

record TerminalStickyScrollContribution =
  this_instance :: ITerminalInstance
  this_xterm :: "IXtermTerminal option"
  this_element :: "HTMLElement option"
  this_stickyScrollOverlay :: "RawXtermTerminal option"
  this_currentStickyMarker :: "IMarker option"
  this_serializeAddon :: "SerializeAddon option"
  this_canvasAddon :: "addon option"
  clickListenerAdded :: bool
  consoleLog :: "(string \<times> command option) list"

text \<open>
  A dereference of \<^verbatim>\<open>undefined\<close> or \<^verbatim>\<open>null\<close> behind a non-null assertion
  (\<^verbatim>\<open>!\<close>) throws a \<^verbatim>\<open>TypeError\<close>; the state reached before the throw is kept.
\<close>

datatype error = TypeError string

datatype ('a, 's) completion = Returned 'a | Threw error 's

subsection \<open>Strings\<close>

text \<open>
  \<^verbatim>\<open>String.prototype.indexOf\<close> for a one-character search string: the first index, or
  \<open>-1\<close>. \<^verbatim>\<open>String.prototype.substring\<close>: both arguments are clamped to
  \<open>[0, length]\<close> and swapped when the first exceeds the second.
\<close>

primrec indexOf :: "string \<Rightarrow> char \<Rightarrow> int" where
  "indexOf [] c = - 1"
| "indexOf (x # xs) c =
     (if x = c then 0 else (let i = indexOf xs c in if i = - 1 then - 1 else i + 1))"

definition substring :: "string \<Rightarrow> int \<Rightarrow> int \<Rightarrow> string" where
  "substring s start fin =
     (let len = int (length s);
          finalStart = min (max start 0) len;
          finalEnd = min (max fin 0) len;
          lo = min finalStart finalEnd;
          hi = max finalStart finalEnd
      in take (nat (hi - lo)) (drop (nat lo) s))"

definition CR :: char where
  "CR = CHR 0x0D"

definition LF :: char where
  "LF = CHR 0x0A"

text \<open>\<^verbatim>\<open>'\x1b[H\x1b[K'\<close>: cursor home, erase to end of line.\<close>

definition resetSequence :: string where
  "resetSequence = [CHR 0x1B, CHR ''['', CHR ''H'', CHR 0x1B, CHR ''['', CHR ''K'']"

text \<open>Line 125: \<^verbatim>\<open>s.substring(0, s.indexOf('\r'))\<close>.\<close>

definition extractContent :: "string \<Rightarrow> string" where
  "extractContent s = substring s 0 (indexOf s CR)"

subsection \<open>Terminal operations\<close>

definition terminal_write :: "RawXtermTerminal \<Rightarrow> string \<Rightarrow> RawXtermTerminal" where
  "terminal_write t data = t\<lparr>written := written t @ [data]\<rparr>"

definition terminal_resize :: "RawXtermTerminal \<Rightarrow> int \<Rightarrow> int \<Rightarrow> RawXtermTerminal" where
  "terminal_resize t c r = t\<lparr>cols := c, rows := r\<rparr>"

definition terminal_loadAddon :: "RawXtermTerminal \<Rightarrow> addon \<Rightarrow> RawXtermTerminal" where
  "terminal_loadAddon t a = t\<lparr>loadedAddons := loadedAddons t @ [a]\<rparr>"

definition terminal_open :: "RawXtermTerminal \<Rightarrow> RawXtermTerminal" where
  "terminal_open t = t\<lparr>opened := True\<rparr>"

definition scrollToLine :: "IXtermTerminal \<Rightarrow> int \<Rightarrow> ScrollPosition \<Rightarrow> IXtermTerminal" where
  "scrollToLine x l p = x\<lparr>scrollToLineCalls := scrollToLineCalls x @ [(l, p)]\<rparr>"

definition callSerialize :: "SerializeAddon \<Rightarrow> int \<Rightarrow> string \<times> SerializeAddon" where
  "callSerialize a n = (serialize a n, a\<lparr>serializeCalls := serializeCalls a @ [n]\<rparr>)"

subsection \<open>The contribution's methods\<close>

text \<open>
  Lines 99--103: \<^verbatim>\<open>commandStartMarker\<close> is taken when its key is present, else
  \<^verbatim>\<open>marker\<close> when its key is present, else \<^verbatim>\<open>undefined\<close>.
\<close>

definition resolveMarker :: "command option \<Rightarrow> IMarker option" where
  "resolveMarker cmd =
     (case cmd of
        None \<Rightarrow> None
      | Some c \<Rightarrow>
          (case commandStartMarker c of
             Some v \<Rightarrow> v
           | None \<Rightarrow> (case marker c of Some v \<Rightarrow> v | None \<Rightarrow> None)))"

text \<open>
  \<^verbatim>\<open>_syncOptions(target, copyFrom)\<close>: the resize comes first, then the option object is
  built, which reads \<^verbatim>\<open>this._xterm!\<close>.
\<close>

definition syncOptions ::
  "TerminalStickyScrollContribution \<Rightarrow> RawXtermTerminal \<Rightarrow> RawXtermTerminal
     \<Rightarrow> (RawXtermTerminal, RawXtermTerminal) completion" where
  "syncOptions s target copyFrom =
     (let opts = options copyFrom;
          t1 = terminal_resize target (cols copyFrom) 1
      in case this_xterm s of
           None \<Rightarrow> Threw (TypeError ''this._xterm is undefined'') t1
         | Some x \<Rightarrow>
             Returned (t1\<lparr>options :=
               \<lparr> cursorInactiveStyle = Some ''none'',
                 scrollbackOption = Some 0,
                 logLevel = Some ''off'',
                 theme = Some (xtermTheme x),
                 documentOverride = documentOverride opts,
                 fontFamily = fontFamily opts,
                 fontWeight = fontWeight opts,
                 fontWeightBold = fontWeightBold opts,
                 fontSize = fontSize opts,
                 letterSpacing = letterSpacing opts,
                 lineHeight = lineHeight opts,
                 drawBoldTextInBrightColors = drawBoldTextInBrightColors opts,
                 minimumContrastRatio = minimumContrastRatio opts,
                 tabStopWidth = tabStopWidth opts,
                 overviewRulerWidth = overviewRulerWidth opts \<rparr>\<rparr>))"

text \<open>\<^verbatim>\<open>document.createElement('div')\<close>: no class, no text, displayed, not in the document.\<close>

definition createElement :: HTMLElement where
  "createElement =
     \<lparr> classList = [], textContent = [], display = Shown, isConnected = False,
       hoverOverlayAppended = False \<rparr>"

text \<open>
  \<^verbatim>\<open>_ensureElement\<close> (lines 136--158). The field is assigned before the three
  non-null assertions of line 141 and the one of line 152 are evaluated, so a throw leaves
  the new element in \<open>this_element\<close>. Opening the overlay terminal in the element puts
  the terminal's rendered nodes under it; the hover overlay itself has no text.
\<close>

definition ensureElement ::
  "TerminalStickyScrollContribution
     \<Rightarrow> (HTMLElement \<times> TerminalStickyScrollContribution, TerminalStickyScrollContribution) completion"
  where
  "ensureElement s =
     (case this_element s of
        Some e \<Rightarrow> Returned (e, s)
      | None \<Rightarrow>
          let e1 = createElement\<lparr>classList := classList createElement @ [''terminal-sticky-scroll'']\<rparr>;
              s1 = s\<lparr>this_element := Some e1\<rparr>
          in case this_xterm s1 of
               None \<Rightarrow> Threw (TypeError ''this._xterm is undefined'') s1
             | Some x \<Rightarrow>
                 (case element (raw x) of
                    None \<Rightarrow> Threw (TypeError ''raw.element is undefined'') s1
                  | Some el \<Rightarrow>
                      if \<not> hasParentElement el
                      then Threw (TypeError ''parentElement is null'') s1
                      else
                        let e2 = e1\<lparr>isConnected := True\<rparr>;
                            s2 = s1\<lparr>this_element := Some e2, clickListenerAdded := True\<rparr>
                        in case this_stickyScrollOverlay s2 of
                             None \<Rightarrow> Threw (TypeError ''this._stickyScrollOverlay is undefined'') s2
                           | Some ov \<Rightarrow>
                               let e3 = e2\<lparr>textContent := renderedText ov\<rparr>;
                                   e4 = e3\<lparr>hoverOverlayAppended := True\<rparr>
                               in Returned (e4,
                                    s2\<lparr>this_stickyScrollOverlay := Some (terminal_open ov),
                                       this_element := Some e4\<rparr>)))"

text \<open>
  Lines 117--133 of \<^verbatim>\<open>_refresh\<close>, the block guarded by
  \<^verbatim>\<open>if (this._stickyScrollOverlay)\<close>. The serialize call is optional-chained: without
  an addon \<^verbatim>\<open>s\<close> is \<^verbatim>\<open>undefined\<close>. \<^verbatim>\<open>if (s)\<close> and \<^verbatim>\<open>if (content)\<close> test for
  a non-empty string.
\<close>

definition refresh_overlay ::
  "TerminalStickyScrollContribution \<Rightarrow> IXtermTerminal \<Rightarrow> IMarker
     \<Rightarrow> (TerminalStickyScrollContribution, TerminalStickyScrollContribution) completion" where
  "refresh_overlay s x m =
     (case this_stickyScrollOverlay s of
        None \<Rightarrow> Returned s
      | Some ov \<Rightarrow>
          let ov1 = terminal_write ov resetSequence;
              called = map_option (\<lambda>a. callSerialize a (baseY (active (buffer (raw x))) - line m))
                         (this_serializeAddon s);
              s1 = s\<lparr>this_serializeAddon := map_option snd called\<rparr>;
              ov2 = (case called of
                       None \<Rightarrow> ov1
                     | Some (str, a') \<Rightarrow>
                         if str = [] then ov1
                         else let content = extractContent str
                              in if content = [] then ov1 else terminal_write ov1 content)
          in case syncOptions s1 ov2 (raw x) of
               Returned ov3 \<Rightarrow> Returned (s1\<lparr>this_stickyScrollOverlay := Some ov3\<rparr>)
             | Threw err ov3 \<Rightarrow> Threw err (s1\<lparr>this_stickyScrollOverlay := Some ov3\<rparr>))"

text \<open>
  The body of \<^verbatim>\<open>_refresh\<close> (lines 87--134). The method is wrapped by the decorator
  \<^verbatim>\<open>@throttle(0)\<close> of \<^verbatim>\<open>vs/base/common/decorators\<close>, which decides when the body runs;
  this is one run of the body.
\<close>

definition refresh ::
  "TerminalStickyScrollContribution
     \<Rightarrow> (TerminalStickyScrollContribution, TerminalStickyScrollContribution) completion" where
  "refresh s =
     (case this_xterm s of
        None \<Rightarrow> Returned s
      | Some x \<Rightarrow>
          (case element (raw x) of
             None \<Rightarrow> Returned s
           | Some el \<Rightarrow>
               let s1 = s\<lparr>this_currentStickyMarker := None\<rparr>
               in case commandDetection (this_instance s1) of
                    None \<Rightarrow> Returned s1
                  | Some cd \<Rightarrow>
                      let cmd = getCommandForLine cd (viewportY (active (buffer (raw x))))
                      in case resolveMarker cmd of
                           None \<Rightarrow> Returned s1
                         | Some m \<Rightarrow>
                             if line m = - 1 then Returned s1
                             else
                               let s2 = s1\<lparr>this_currentStickyMarker := Some m\<rparr>
                               in case ensureElement s2 of
                                    Threw err s3 \<Rightarrow> Threw err s3
                                  | Returned (e, s3) \<Rightarrow>
                                      let e' = (if textContent e = [] then dom_hide e else dom_show e);
                                          s4 = s3\<lparr>this_element := Some e'\<rparr>;
                                          s5 = s4\<lparr>consoleLog := consoleLog s4 @ [(''command!'', cmd)]\<rparr>
                                      in refresh_overlay s5 x m))"

text \<open>The \<^verbatim>\<open>onBufferChange\<close> listener of lines 56--59, given \<^verbatim>\<open>buffer.type\<close>.\<close>

definition onBufferChange ::
  "TerminalStickyScrollContribution \<Rightarrow> string
     \<Rightarrow> (TerminalStickyScrollContribution, TerminalStickyScrollContribution) completion" where
  "onBufferChange s bufferType =
     (case ensureElement s of
        Threw err s1 \<Rightarrow> Threw err s1
      | Returned (e, s1) \<Rightarrow>
          Returned (s1\<lparr>this_element := Some (dom_setVisibility (bufferType = ''normal'') e)\<rparr>))"

text \<open>The click listener of the hover overlay, lines 144--148.\<close>

definition hoverOverlayClick ::
  "TerminalStickyScrollContribution \<Rightarrow> TerminalStickyScrollContribution" where
  "hoverOverlayClick s =
     (case this_xterm s of
        None \<Rightarrow> s
      | Some x \<Rightarrow>
          (case this_currentStickyMarker s of
             None \<Rightarrow> s
           | Some m \<Rightarrow> s\<lparr>this_xterm := Some (scrollToLine x (line m) Middle)\<rparr>))"

text \<open>
  \<^verbatim>\<open>xtermReady\<close> (lines 53--84): the synchronous part stores the terminal; the promise
  callbacks run later, each as a step of its own: the overlay terminal is constructed with
  one row and the primary terminal's columns, then the serialize addon is created and loaded
  into the primary terminal, and, only for a GPU-accelerated primary terminal, the canvas
  addon into the overlay. \<open>newTerminal\<close> is what the xterm constructor returns for
  \<^verbatim>\<open>{rows, cols}\<close>; the callbacks close over the terminal passed to
  \<^verbatim>\<open>xtermReady\<close>, which is the one stored in the field.
\<close>

definition defaultOptions :: ITerminalOptions where
  "defaultOptions =
     \<lparr> cursorInactiveStyle = None, scrollbackOption = None, logLevel = None, theme = None,
       documentOverride = None, fontFamily = None, fontWeight = None, fontWeightBold = None,
       fontSize = None, letterSpacing = None, lineHeight = None,
       drawBoldTextInBrightColors = None, minimumContrastRatio = None, tabStopWidth = None,
       overviewRulerWidth = None \<rparr>"

definition newTerminal :: "int \<Rightarrow> int \<Rightarrow> string \<Rightarrow> RawXtermTerminal" where
  "newTerminal r c rendered =
     \<lparr> element = None, cols = c, rows = r,
       buffer = \<lparr> active = \<lparr> viewportY = 0, baseY = 0 \<rparr> \<rparr>,
       options = defaultOptions, written = [], loadedAddons = [], opened = False,
       renderedText = rendered \<rparr>"

definition newContribution :: "ITerminalInstance \<Rightarrow> TerminalStickyScrollContribution" where
  "newContribution inst =
     \<lparr> this_instance = inst, this_xterm = None, this_element = None,
       this_stickyScrollOverlay = None, this_currentStickyMarker = None,
       this_serializeAddon = None, this_canvasAddon = None, clickListenerAdded = False,
       consoleLog = [] \<rparr>"

definition xtermReady ::
  "TerminalStickyScrollContribution \<Rightarrow> IXtermTerminal \<Rightarrow> TerminalStickyScrollContribution" where
  "xtermReady s x = s\<lparr>this_xterm := Some x\<rparr>"

definition onXtermConstructor ::
  "TerminalStickyScrollContribution \<Rightarrow> string \<Rightarrow> TerminalStickyScrollContribution" where
  "onXtermConstructor s rendered =
     (case this_xterm s of
        None \<Rightarrow> s
      | Some x \<Rightarrow> s\<lparr>this_stickyScrollOverlay := Some (newTerminal 1 (cols (raw x)) rendered)\<rparr>)"

definition onSerializeAddonConstructor ::
  "TerminalStickyScrollContribution \<Rightarrow> (int \<Rightarrow> string) \<Rightarrow> TerminalStickyScrollContribution" where
  "onSerializeAddonConstructor s f =
     s\<lparr>this_serializeAddon := Some \<lparr> serialize = f, serializeCalls = [] \<rparr>,
       this_xterm :=
         map_option (\<lambda>x. x\<lparr>raw := terminal_loadAddon (raw x) SerializeAddonRef\<rparr>) (this_xterm s)\<rparr>"

definition onCanvasAddonConstructor ::
  "TerminalStickyScrollContribution \<Rightarrow> TerminalStickyScrollContribution" where
  "onCanvasAddonConstructor s =
     (case this_xterm s of
        None \<Rightarrow> s
      | Some x \<Rightarrow>
          if isGpuAccelerated x
          then s\<lparr>this_canvasAddon := Some CanvasAddonRef,
                 this_stickyScrollOverlay :=
                   map_option (\<lambda>ov. terminal_loadAddon ov CanvasAddonRef)
                     (this_stickyScrollOverlay s)\<rparr>
          else s)"

subsection \<open>Observations\<close>

text \<open>What a caller can see of a call: whether it returned, and the state it left.\<close>

definition returned :: "('s, 's) completion \<Rightarrow> bool" where
  "returned r = (case r of Returned s \<Rightarrow> True | Threw err s \<Rightarrow> False)"

definition finalState :: "('s, 's) completion \<Rightarrow> 's" where
  "finalState r = (case r of Returned s \<Rightarrow> s | Threw err s \<Rightarrow> s)"

text \<open>The strings written to the overlay terminal so far, in order.\<close>

definition overlayWritten :: "TerminalStickyScrollContribution \<Rightarrow> string list" where
  "overlayWritten s = (case this_stickyScrollOverlay s of None \<Rightarrow> [] | Some ov \<Rightarrow> written ov)"

text \<open>The \<^verbatim>\<open>scrollback\<close> option of every serialize call so far.\<close>

definition serializeInvocations :: "TerminalStickyScrollContribution \<Rightarrow> int list" where
  "serializeInvocations s = (case this_serializeAddon s of None \<Rightarrow> [] | Some a \<Rightarrow> serializeCalls a)"

text \<open>The scroll-to-line requests the primary terminal has received.\<close>

definition scrollRequests :: "TerminalStickyScrollContribution \<Rightarrow> (int \<times> ScrollPosition) list" where
  "scrollRequests s = (case this_xterm s of None \<Rightarrow> [] | Some x \<Rightarrow> scrollToLineCalls x)"

text \<open>
  The command \<^verbatim>\<open>_refresh\<close> looks up (line 97), once its two guards of lines 88 and 94
  have passed; \<open>None\<close> when a guard fails or when the capability returns no command.
\<close>

definition commandAtViewport :: "TerminalStickyScrollContribution \<Rightarrow> command option" where
  "commandAtViewport s =
     (case this_xterm s of
        None \<Rightarrow> None
      | Some x \<Rightarrow>
          (case element (raw x) of
             None \<Rightarrow> None
           | Some el \<Rightarrow>
               (case commandDetection (this_instance s) of
                  None \<Rightarrow> None
                | Some cd \<Rightarrow> getCommandForLine cd (viewportY (active (buffer (raw x)))))))"

text \<open>Both guards of lines 88 and 94 pass: the lookup of line 97 is made.\<close>

definition refreshQueries :: "TerminalStickyScrollContribution \<Rightarrow> bool" where
  "refreshQueries s =
     (case this_xterm s of
        None \<Rightarrow> False
      | Some x \<Rightarrow>
          (case element (raw x) of
             None \<Rightarrow> False
           | Some el \<Rightarrow>
               (case commandDetection (this_instance s) of None \<Rightarrow> False | Some cd \<Rightarrow> True)))"

text \<open>
  The non-null assertions of \<^verbatim>\<open>_ensureElement\<close> hold: the element exists already, or
  the primary terminal's surface has a parent and the overlay terminal has been constructed.
\<close>

definition canEnsureElement :: "TerminalStickyScrollContribution \<Rightarrow> bool" where
  "canEnsureElement s =
     (case this_element s of
        Some e \<Rightarrow> True
      | None \<Rightarrow>
          (case this_xterm s of
             None \<Rightarrow> False
           | Some x \<Rightarrow>
               (case element (raw x) of
                  None \<Rightarrow> False
                | Some el \<Rightarrow>
                    hasParentElement el \<and>
                    (case this_stickyScrollOverlay s of None \<Rightarrow> False | Some ov \<Rightarrow> True))))"

subsection \<open>Example states\<close>

text \<open>
  The scenario of the spec: a primary terminal of 80 columns whose viewport top row belongs
  to a command that starts at line 42, with \<^verbatim>\<open>baseY\<close> at 100.
\<close>

definition exampleMarker :: IMarker where
  "exampleMarker = \<lparr> markerId = 7, line = 42 \<rparr>"

definition otherMarker :: IMarker where
  "otherMarker = \<lparr> markerId = 8, line = 45 \<rparr>"

definition disposedMarker :: IMarker where
  "disposedMarker = \<lparr> markerId = 9, line = - 1 \<rparr>"

definition partialCommand :: command where
  "partialCommand = \<lparr> commandStartMarker = Some (Some exampleMarker), marker = None \<rparr>"

definition finishedCommand :: command where
  "finishedCommand = \<lparr> commandStartMarker = None, marker = Some (Some otherMarker) \<rparr>"

definition bothCommand :: command where
  "bothCommand = \<lparr> commandStartMarker = Some (Some exampleMarker), marker = Some (Some otherMarker) \<rparr>"

definition bareCommand :: command where
  "bareCommand = \<lparr> commandStartMarker = None, marker = None \<rparr>"

definition disposedCommand :: command where
  "disposedCommand = \<lparr> commandStartMarker = None, marker = Some (Some disposedMarker) \<rparr>"

definition instanceWith :: "command option \<Rightarrow> ITerminalInstance" where
  "instanceWith c = \<lparr> commandDetection = Some \<lparr> getCommandForLine = (\<lambda>l. if l = 57 then c else None) \<rparr> \<rparr>"

definition examplePrimary :: RawXtermTerminal where
  "examplePrimary =
     (newTerminal 24 80 [])
       \<lparr> element := Some \<lparr> hasParentElement = True \<rparr>,
         buffer := \<lparr> active = \<lparr> viewportY = 57, baseY = 100 \<rparr> \<rparr>,
         opened := True \<rparr>"

definition exampleXterm :: IXtermTerminal where
  "exampleXterm =
     \<lparr> raw = examplePrimary, isGpuAccelerated = False, xtermTheme = [],
       scrollToLineCalls = [] \<rparr>"

text \<open>Serialized buffers: two lines, no text at all, and one line without a line break.\<close>

definition twoLines :: "int \<Rightarrow> string" where
  "twoLines n = (if n = 58 then ''ls -la'' @ [CR, LF] @ ''total 0'' else [])"

definition nothingSerialized :: "int \<Rightarrow> string" where
  "nothingSerialized n = []"

definition unbrokenLine :: "int \<Rightarrow> string" where
  "unbrokenLine n = ''ls -la''"

text \<open>
  After \<^verbatim>\<open>xtermReady\<close>; after the overlay terminal has been constructed (its renderer
  leaves the text \<open>rendered\<close> in the DOM); after the serialize addon has been loaded.
\<close>

definition stateReady :: "command option \<Rightarrow> TerminalStickyScrollContribution" where
  "stateReady c = xtermReady (newContribution (instanceWith c)) exampleXterm"

definition stateOverlay :: "command option \<Rightarrow> string \<Rightarrow> TerminalStickyScrollContribution" where
  "stateOverlay c rendered = onXtermConstructor (stateReady c) rendered"

definition stateLoaded ::
  "command option \<Rightarrow> string \<Rightarrow> (int \<Rightarrow> string) \<Rightarrow> TerminalStickyScrollContribution" where
  "stateLoaded c rendered f = onSerializeAddonConstructor (stateOverlay c rendered) f"

text \<open>
  A primary terminal that has not been attached to the DOM (\<^verbatim>\<open>raw.element\<close> is
  undefined, as for a terminal running in the background), after its overlay terminal has
  been constructed.
\<close>

definition stateDetached :: TerminalStickyScrollContribution where
  "stateDetached =
     onXtermConstructor
       (xtermReady (newContribution (instanceWith (Some partialCommand)))
          (exampleXterm\<lparr>raw := examplePrimary\<lparr>element := None, opened := False\<rparr>\<rparr>))
       []"

text \<open>A sticky marker at line 17 is recorded, as in the click scenario of the spec.\<close>

definition stateSticky17 :: TerminalStickyScrollContribution where
  "stateSticky17 =
     (stateLoaded (Some partialCommand) [] twoLines)
       \<lparr> this_currentStickyMarker := Some \<lparr> markerId = 3, line = 17 \<rparr> \<rparr>"

lemmas example_defs =
  exampleMarker_def partialCommand_def instanceWith_def examplePrimary_def exampleXterm_def
  twoLines_def stateReady_def stateOverlay_def stateLoaded_def newTerminal_def
  newContribution_def xtermReady_def onXtermConstructor_def onSerializeAddonConstructor_def
  defaultOptions_def terminal_loadAddon_def

lemmas method_defs =
  refresh_def refresh_overlay_def ensureElement_def createElement_def syncOptions_def
  resolveMarker_def commandAtViewport_def canEnsureElement_def onBufferChange_def
  callSerialize_def terminal_write_def terminal_resize_def terminal_open_def dom_show_def
  dom_hide_def dom_setVisibility_def returned_def finalState_def overlayWritten_def
  serializeInvocations_def

section \<open>Properties\<close>

subsection \<open>Strings\<close>

text \<open>\<open>indexOf\<close> is \<open>-1\<close> exactly for an absent character, else the length of the prefix before it.\<close>

lemma indexOf_notin: "c \<notin> set s \<Longrightarrow> indexOf s c = - 1"
  by (induction s) (auto simp: Let_def)

lemma indexOf_in: "c \<in> set s \<Longrightarrow> indexOf s c = int (length (takeWhile (\<lambda>x. x \<noteq> c) s))"
  by (induction s) (auto simp: Let_def)

lemma substring_0_neg: "k \<le> 0 \<Longrightarrow> substring s 0 k = []"
  by (simp add: substring_def Let_def)

lemma substring_0_take: "0 \<le> k \<Longrightarrow> substring s 0 k = take (nat k) s"
  by (auto simp: substring_def Let_def min_def max_def)

lemma extractContent_no_CR: "CR \<notin> set s \<Longrightarrow> extractContent s = []"
  by (simp add: extractContent_def indexOf_notin substring_0_neg)

lemma extractContent_CR: "CR \<in> set s \<Longrightarrow> extractContent s = takeWhile (\<lambda>x. x \<noteq> CR) s"
  using takeWhile_eq_take [of "\<lambda>x. x \<noteq> CR" s]
  by (simp add: extractContent_def indexOf_in substring_0_take)

lemma extractContent_Nil: "extractContent [] = []"
  by (simp add: extractContent_no_CR)

lemma extractContent_prefix:
  "extractContent s = (if CR \<in> set s then takeWhile (\<lambda>x. x \<noteq> CR) s else [])"
  by (simp add: extractContent_no_CR extractContent_CR)

lemma twoLines_58: "twoLines 58 = ''ls -la'' @ [CR, LF] @ ''total 0''"
  by (simp add: twoLines_def)

lemma extractContent_twoLines: "extractContent (twoLines 58) = ''ls -la''"
  by (simp add: twoLines_def extractContent_prefix CR_def LF_def)

subsection \<open>The element and the overlay block\<close>

lemma commandAtViewport_SomeD:
  assumes "resolveMarker (commandAtViewport s) = Some m"
  shows "\<exists>x el cd. this_xterm s = Some x \<and> element (raw x) = Some el \<and>
           commandDetection (this_instance s) = Some cd \<and>
           commandAtViewport s = getCommandForLine cd (viewportY (active (buffer (raw x))))"
  using assms
  by (auto simp: commandAtViewport_def resolveMarker_def split: option.splits)

lemma refresh_full_path:
  assumes "this_xterm s = Some x" "resolveMarker (commandAtViewport s) = Some m" "line m \<noteq> - 1"
  shows "refresh s =
           (case ensureElement (s\<lparr>this_currentStickyMarker := Some m\<rparr>) of
              Threw err s3 \<Rightarrow> Threw err s3
            | Returned (e, s3) \<Rightarrow>
                refresh_overlay
                  (s3\<lparr>this_element := Some (if textContent e = [] then dom_hide e else dom_show e),
                      consoleLog := consoleLog s3 @ [(''command!'', commandAtViewport s)]\<rparr>) x m)"
proof -
  from commandAtViewport_SomeD [OF assms(2)] assms(1)
  obtain el cd where g: "element (raw x) = Some el" "commandDetection (this_instance s) = Some cd"
    "commandAtViewport s = getCommandForLine cd (viewportY (active (buffer (raw x))))"
    by auto
  show ?thesis
    using assms g
    by (simp add: refresh_def Let_def split: completion.splits prod.splits)
qed

lemma ensureElement_existing: "this_element s = Some e \<Longrightarrow> ensureElement s = Returned (e, s)"
  by (simp add: ensureElement_def)

lemma ensureElement_fresh:
  assumes "this_element s = None" "this_xterm s = Some x" "element (raw x) = Some el"
    "hasParentElement el" "this_stickyScrollOverlay s = Some ov"
  shows "ensureElement s =
           Returned
             (\<lparr> classList = [''terminal-sticky-scroll''], textContent = renderedText ov,
                display = Shown, isConnected = True, hoverOverlayAppended = True \<rparr>,
              s\<lparr>clickListenerAdded := True,
                this_stickyScrollOverlay := Some (terminal_open ov),
                this_element := Some
                  \<lparr> classList = [''terminal-sticky-scroll''], textContent = renderedText ov,
                    display = Shown, isConnected = True, hoverOverlayAppended = True \<rparr>\<rparr>)"
  using assms by (simp add: ensureElement_def createElement_def Let_def)

lemma ensureElement_can:
  assumes "canEnsureElement s"
  shows "\<exists>e s'. ensureElement s = Returned (e, s') \<and> this_element s' = Some e \<and>
           this_xterm s' = this_xterm s \<and> this_serializeAddon s' = this_serializeAddon s \<and>
           overlayWritten s' = overlayWritten s \<and>
           (this_stickyScrollOverlay s' = None \<longleftrightarrow> this_stickyScrollOverlay s = None) \<and>
           textContent e =
             (case this_element s of
                Some e0 \<Rightarrow> textContent e0
              | None \<Rightarrow> (case this_stickyScrollOverlay s of Some ov \<Rightarrow> renderedText ov | None \<Rightarrow> []))"
proof (cases "this_element s")
  case (Some e)
  then show ?thesis by (simp add: ensureElement_existing)
next
  case None
  with assms obtain x el ov where
    "this_xterm s = Some x" "element (raw x) = Some el" "hasParentElement el"
    "this_stickyScrollOverlay s = Some ov"
    by (auto simp: canEnsureElement_def split: option.splits)
  with None show ?thesis
    by (simp add: ensureElement_fresh overlayWritten_def terminal_open_def)
qed

text \<open>Otherwise the call throws, leaving a new, displayed element in the field.\<close>

lemma ensureElement_throws:
  assumes "\<not> canEnsureElement s"
  shows "\<exists>err s'. ensureElement s = Threw err s' \<and>
           map_option display (this_element s') = Some Shown"
  using assms
  by (auto simp: canEnsureElement_def ensureElement_def createElement_def Let_def
      split: option.splits)

lemma canEnsureElement_marker:
  "canEnsureElement (s\<lparr>this_currentStickyMarker := mk\<rparr>) = canEnsureElement s"
  by (simp add: canEnsureElement_def cong: option.case_cong)

lemma overlayWritten_marker:
  "overlayWritten (s\<lparr>this_currentStickyMarker := mk\<rparr>) = overlayWritten s"
  by (simp add: overlayWritten_def)

lemma refresh_overlay_returned:
  assumes "this_xterm s = Some x'"
  shows "returned (refresh_overlay s x m)"
  using assms
  by (simp add: refresh_overlay_def syncOptions_def returned_def Let_def split: option.splits)

lemma refresh_overlay_written:
  assumes "this_stickyScrollOverlay s = Some ov" "this_xterm s = Some x'"
  shows "overlayWritten (finalState (refresh_overlay s x m)) =
           written ov @ [resetSequence] @
             (case this_serializeAddon s of
                None \<Rightarrow> []
              | Some a \<Rightarrow>
                  (let content = extractContent (serialize a (baseY (active (buffer (raw x))) - line m))
                   in if content = [] then [] else [content]))"
  using assms
  by (simp add: refresh_overlay_def syncOptions_def finalState_def overlayWritten_def
      callSerialize_def terminal_write_def terminal_resize_def extractContent_Nil Let_def
      split: option.splits)

lemma refresh_overlay_calls:
  assumes "this_stickyScrollOverlay s = Some ov" "this_xterm s = Some x'"
  shows "serializeInvocations (finalState (refresh_overlay s x m)) =
           (case this_serializeAddon s of
              None \<Rightarrow> []
            | Some a \<Rightarrow> serializeCalls a @ [baseY (active (buffer (raw x))) - line m])"
  using assms
  by (simp add: refresh_overlay_def syncOptions_def finalState_def serializeInvocations_def
      callSerialize_def Let_def split: option.splits)

lemma refresh_overlay_element:
  assumes "this_xterm s = Some x'"
  shows "this_element (finalState (refresh_overlay s x m)) = this_element s"
  using assms
  by (simp add: refresh_overlay_def syncOptions_def finalState_def Let_def split: option.splits)

text \<open>
  A refresh that resolves a valid marker and can obtain its element returns, and leaves
  these writes, serialize calls and visibility behind.
\<close>

lemma refresh_completes:
  assumes "this_xterm s = Some x" "resolveMarker (commandAtViewport s) = Some m" "line m \<noteq> - 1"
    "canEnsureElement s"
  shows "returned (refresh s)"
    and "this_stickyScrollOverlay s = Some ov \<Longrightarrow>
         overlayWritten (finalState (refresh s)) =
           written ov @ [resetSequence] @
             (case this_serializeAddon s of
                None \<Rightarrow> []
              | Some a \<Rightarrow>
                  (let content = extractContent (serialize a (baseY (active (buffer (raw x))) - line m))
                   in if content = [] then [] else [content]))"
    and "this_stickyScrollOverlay s = Some ov \<Longrightarrow>
         serializeInvocations (finalState (refresh s)) =
           (case this_serializeAddon s of
              None \<Rightarrow> []
            | Some a \<Rightarrow> serializeCalls a @ [baseY (active (buffer (raw x))) - line m])"
    and "map_option display (this_element (finalState (refresh s))) =
           Some (if (case this_element s of
                       Some e0 \<Rightarrow> textContent e0
                     | None \<Rightarrow> (case this_stickyScrollOverlay s of Some ov \<Rightarrow> renderedText ov | None \<Rightarrow> [])) = []
                 then Hidden else Shown)"
proof -
  let ?s2 = "s\<lparr>this_currentStickyMarker := Some m\<rparr>"
  from assms(4) have "canEnsureElement ?s2" by (simp add: canEnsureElement_marker)
  from ensureElement_can [OF this] obtain e s3 where
    ee: "ensureElement ?s2 = Returned (e, s3)" and
    s3: "this_element s3 = Some e" "this_xterm s3 = this_xterm s"
      "this_serializeAddon s3 = this_serializeAddon s" "overlayWritten s3 = overlayWritten s"
      "this_stickyScrollOverlay s3 = None \<longleftrightarrow> this_stickyScrollOverlay s = None" and
    tc: "textContent e =
             (case this_element s of
                Some e0 \<Rightarrow> textContent e0
              | None \<Rightarrow> (case this_stickyScrollOverlay s of Some ov \<Rightarrow> renderedText ov | None \<Rightarrow> []))"
    by (auto simp: overlayWritten_marker cong: option.case_cong)
  let ?s5 = "s3\<lparr>this_element := Some (if textContent e = [] then dom_hide e else dom_show e),
                      consoleLog := consoleLog s3 @ [(''command!'', commandAtViewport s)]\<rparr>"
  have r: "refresh s = refresh_overlay ?s5 x m"
    using refresh_full_path [OF assms(1-3)] ee by simp
  have x5: "this_xterm ?s5 = Some x" using s3 assms(1) by simp
  show "returned (refresh s)"
    using refresh_overlay_returned [OF x5] r by simp
  show "map_option display (this_element (finalState (refresh s))) =
           Some (if (case this_element s of
                       Some e0 \<Rightarrow> textContent e0
                     | None \<Rightarrow> (case this_stickyScrollOverlay s of Some ov \<Rightarrow> renderedText ov | None \<Rightarrow> [])) = []
                 then Hidden else Shown)"
    using refresh_overlay_element [OF x5, of x m] r tc
    by (simp add: dom_hide_def dom_show_def)
  {
    assume ov: "this_stickyScrollOverlay s = Some ov"
    with s3 obtain ov3 where ov3: "this_stickyScrollOverlay s3 = Some ov3" by auto
    with s3(4) ov have w: "written ov3 = written ov" by (simp add: overlayWritten_def)
    have o5: "this_stickyScrollOverlay ?s5 = Some ov3" using ov3 by simp
    show "overlayWritten (finalState (refresh s)) =
           written ov @ [resetSequence] @
             (case this_serializeAddon s of
                None \<Rightarrow> []
              | Some a \<Rightarrow>
                  (let content = extractContent (serialize a (baseY (active (buffer (raw x))) - line m))
                   in if content = [] then [] else [content]))"
      using refresh_overlay_written [OF o5 x5, of x m] r w s3(3) by simp
    show "serializeInvocations (finalState (refresh s)) =
           (case this_serializeAddon s of
              None \<Rightarrow> []
            | Some a \<Rightarrow> serializeCalls a @ [baseY (active (buffer (raw x))) - line m])"
      using refresh_overlay_calls [OF o5 x5, of x m] r s3(3) by simp
  }
qed

lemma refresh_visibility_follows_textContent:
  assumes "this_xterm s = Some x"
    and "resolveMarker (commandAtViewport s) = Some m" and "line m \<noteq> - 1"
    and "this_element s = Some e"
  shows "map_option display (this_element (finalState (refresh s))) =
           Some (if textContent e = [] then Hidden else Shown)"
proof -
  from assms(4) have "canEnsureElement s" by (simp add: canEnsureElement_def)
  from refresh_completes(4) [OF assms(1,2,3) this] assms(4) show ?thesis by simp
qed

lemma refresh_completes_state:
  assumes "this_xterm s = Some x" "resolveMarker (commandAtViewport s) = Some m" "line m \<noteq> - 1"
    "canEnsureElement s"
  shows "this_xterm (finalState (refresh s)) = Some x"
    and "this_instance (finalState (refresh s)) = this_instance s"
    and "map_option textContent (this_element (finalState (refresh s))) =
           Some (case this_element s of
                       Some e0 \<Rightarrow> textContent e0
                     | None \<Rightarrow> (case this_stickyScrollOverlay s of Some ov \<Rightarrow> renderedText ov | None \<Rightarrow> []))"
  using assms
  by (auto simp: method_defs Let_def split: option.splits if_splits dest!: commandAtViewport_SomeD)

lemma commandAtViewport_cong:
  "this_xterm s' = this_xterm s \<Longrightarrow> this_instance s' = this_instance s \<Longrightarrow>
     commandAtViewport s' = commandAtViewport s"
  by (simp add: commandAtViewport_def cong: option.case_cong)

text \<open>A second refresh of the state the first one left shows or hides the element as the first did.\<close>

lemma refresh_visibility_idempotent:
  assumes "this_xterm s = Some x" "resolveMarker (commandAtViewport s) = Some m" "line m \<noteq> - 1"
    "canEnsureElement s"
  shows "map_option display (this_element (finalState (refresh (finalState (refresh s))))) =
         map_option display (this_element (finalState (refresh s)))"
proof -
  let ?s' = "finalState (refresh s)"
  let ?tc = "case this_element s of
               Some e0 \<Rightarrow> textContent e0
             | None \<Rightarrow> (case this_stickyScrollOverlay s of Some ov \<Rightarrow> renderedText ov | None \<Rightarrow> [])"
  note st = refresh_completes_state [OF assms]
  from st(3) obtain e' where e': "this_element ?s' = Some e'" "textContent e' = ?tc"
    by auto
  have c: "commandAtViewport ?s' = commandAtViewport s"
    using st(1,2) assms(1) by (simp add: commandAtViewport_cong)
  have m': "resolveMarker (commandAtViewport ?s') = Some m" using c assms(2) by simp
  have "map_option display (this_element (finalState (refresh ?s'))) =
          Some (if textContent e' = [] then Hidden else Shown)"
    by (rule refresh_visibility_follows_textContent [OF st(1) m' assms(3) e'(1)])
  also have "\<dots> = map_option display (this_element ?s')"
    using e'(2) refresh_completes(4) [OF assms] by (simp only:)
  finally show ?thesis .
qed

subsection \<open>The example states\<close>

text \<open>
  What the three stages of \<^verbatim>\<open>xtermReady\<close> leave in the fields, for any command \<open>c\<close>
  at the viewport, rendered text \<open>r\<close> and serializer \<open>f\<close>.
\<close>

lemma stateReady_fields:
  "this_xterm (stateReady c) = Some exampleXterm"
  "this_stickyScrollOverlay (stateReady c) = None"
  "this_element (stateReady c) = None"
  "commandAtViewport (stateReady c) = c"
  "\<not> canEnsureElement (stateReady c)"
  by (simp_all add: example_defs commandAtViewport_def canEnsureElement_def)

lemma stateOverlay_fields:
  "this_xterm (stateOverlay c r) = Some exampleXterm"
  "this_stickyScrollOverlay (stateOverlay c r) = Some (newTerminal 1 80 r)"
  "this_serializeAddon (stateOverlay c r) = None"
  "this_element (stateOverlay c r) = None"
  "commandAtViewport (stateOverlay c r) = c"
  "canEnsureElement (stateOverlay c r)"
  by (simp_all add: example_defs commandAtViewport_def canEnsureElement_def)

lemma stateLoaded_fields:
  "this_xterm (stateLoaded c r f) =
     Some (exampleXterm\<lparr>raw := terminal_loadAddon examplePrimary SerializeAddonRef\<rparr>)"
  "this_stickyScrollOverlay (stateLoaded c r f) = Some (newTerminal 1 80 r)"
  "this_serializeAddon (stateLoaded c r f) = Some \<lparr> serialize = f, serializeCalls = [] \<rparr>"
  "this_element (stateLoaded c r f) = None"
  "commandAtViewport (stateLoaded c r f) = c"
  "canEnsureElement (stateLoaded c r f)"
  by (simp_all add: example_defs commandAtViewport_def canEnsureElement_def)

lemma example_scrollback:
  "baseY (active (buffer (terminal_loadAddon examplePrimary SerializeAddonRef)))
     - line exampleMarker = 58"
  by (simp add: example_defs)

lemma partialCommand_resolved:
  "resolveMarker (Some partialCommand) = Some exampleMarker" "line exampleMarker \<noteq> - 1"
  by (simp_all add: partialCommand_def exampleMarker_def resolveMarker_def)

subsection \<open>Marker resolution\<close>

text \<open>
  Claim C1. For the command record the capability returns during a refresh: when it exposes
  only \<^verbatim>\<open>commandStartMarker\<close>, the resolved line index is that marker's line; when it
  exposes only \<^verbatim>\<open>marker\<close>, it is that marker's line; when it exposes neither, or no
  record is returned, the refresh returns early: only the recorded sticky marker is cleared,
  the overlay element and the overlay terminal are as before.
\<close>

theorem marker_field_resolution:
  "(commandAtViewport s = Some c \<and> commandStartMarker c = Some (Some m) \<and> marker c = None
      \<longrightarrow> map_option line (resolveMarker (commandAtViewport s)) = Some (line m)) \<and>
   (commandAtViewport s = Some c \<and> commandStartMarker c = None \<and> marker c = Some (Some m)
      \<longrightarrow> map_option line (resolveMarker (commandAtViewport s)) = Some (line m)) \<and>
   (refreshQueries s \<and>
    (commandAtViewport s = None \<or>
     (commandAtViewport s = Some c \<and> commandStartMarker c = None \<and> marker c = None))
      \<longrightarrow> refresh s = Returned (s\<lparr>this_currentStickyMarker := None\<rparr>) \<and>
          this_element (finalState (refresh s)) = this_element s \<and>
          this_stickyScrollOverlay (finalState (refresh s)) = this_stickyScrollOverlay s)"
proof (intro conjI impI)
  assume "commandAtViewport s = Some c \<and> commandStartMarker c = Some (Some m) \<and> marker c = None"
  then show "map_option line (resolveMarker (commandAtViewport s)) = Some (line m)"
    by (simp add: resolveMarker_def)
next
  assume "commandAtViewport s = Some c \<and> commandStartMarker c = None \<and> marker c = Some (Some m)"
  then show "map_option line (resolveMarker (commandAtViewport s)) = Some (line m)"
    by (simp add: resolveMarker_def)
next
  assume a: "refreshQueries s \<and>
    (commandAtViewport s = None \<or>
     (commandAtViewport s = Some c \<and> commandStartMarker c = None \<and> marker c = None))"
  then have n: "resolveMarker (commandAtViewport s) = None"
    by (auto simp: resolveMarker_def)
  from a obtain x el cd where g: "this_xterm s = Some x" "element (raw x) = Some el"
    "commandDetection (this_instance s) = Some cd"
    by (auto simp: refreshQueries_def split: option.splits)
  then have "commandAtViewport s = getCommandForLine cd (viewportY (active (buffer (raw x))))"
    by (simp add: commandAtViewport_def)
  with n g show r: "refresh s = Returned (s\<lparr>this_currentStickyMarker := None\<rparr>)"
    by (simp add: refresh_def Let_def)
  then show "this_element (finalState (refresh s)) = this_element s"
    by (simp add: finalState_def)
  from r show "this_stickyScrollOverlay (finalState (refresh s)) = this_stickyScrollOverlay s"
    by (simp add: finalState_def)
qed

text \<open>C1 at the example commands: lines 42 and 45, and two early returns.\<close>

theorem marker_field_resolution_witness:
  "map_option line (resolveMarker (commandAtViewport (stateReady (Some partialCommand)))) = Some 42 \<and>
   map_option line (resolveMarker (commandAtViewport (stateReady (Some finishedCommand)))) = Some 45 \<and>
   refresh (stateLoaded (Some bareCommand) ''x'' twoLines) =
     Returned ((stateLoaded (Some bareCommand) ''x'' twoLines)\<lparr>this_currentStickyMarker := None\<rparr>) \<and>
   refresh (stateLoaded None ''x'' twoLines) =
     Returned ((stateLoaded None ''x'' twoLines)\<lparr>this_currentStickyMarker := None\<rparr>)"
proof -
  have q: "refreshQueries (stateLoaded c ''x'' twoLines)" for c
    by (simp add: refreshQueries_def example_defs)
  have p: "commandStartMarker partialCommand = Some (Some exampleMarker)"
    "marker partialCommand = None" "line exampleMarker = 42"
    by (simp_all add: partialCommand_def exampleMarker_def)
  have f: "commandStartMarker finishedCommand = None"
    "marker finishedCommand = Some (Some otherMarker)" "line otherMarker = 45"
    by (simp_all add: finishedCommand_def otherMarker_def)
  have b: "commandStartMarker bareCommand = None" "marker bareCommand = None"
    by (simp_all add: bareCommand_def)
  from marker_field_resolution [of "stateReady (Some partialCommand)" partialCommand exampleMarker]
    marker_field_resolution [of "stateReady (Some finishedCommand)" finishedCommand otherMarker]
    marker_field_resolution [of "stateLoaded (Some bareCommand) ''x'' twoLines" bareCommand]
    marker_field_resolution [of "stateLoaded None ''x'' twoLines"]
  show ?thesis
    by (simp add: stateReady_fields stateLoaded_fields q p f b)
qed

text \<open>
  Claim C10. For a command record that exposes both \<^verbatim>\<open>commandStartMarker\<close> and
  \<^verbatim>\<open>marker\<close>, the resolved marker is the value of \<^verbatim>\<open>commandStartMarker\<close>, whatever
  \<^verbatim>\<open>marker\<close> holds: \<^verbatim>\<open>marker\<close> is consulted only when the other key is absent.
\<close>

theorem commandStartMarker_preferred:
  "commandStartMarker c = Some v \<Longrightarrow>
     resolveMarker (Some c) = v \<and> resolveMarker (Some (c\<lparr>marker := mk\<rparr>)) = v"
  by (simp add: resolveMarker_def)

text \<open>C10 at a record with both keys, markers at lines 42 and 45.\<close>

theorem commandStartMarker_preferred_witness:
  "resolveMarker (Some bothCommand) = Some exampleMarker \<and>
   resolveMarker (Some (bothCommand\<lparr>marker := None\<rparr>)) = Some exampleMarker"
  using commandStartMarker_preferred [of bothCommand "Some exampleMarker" None]
  by (simp add: bothCommand_def)

text \<open>
  Claim C4. A refresh whose resolved marker has the line index \<open>-1\<close> leaves the overlay
  element's content and visibility, and the overlay terminal, as they were: it returns after
  clearing the recorded sticky marker.
\<close>

theorem invalid_marker_leaves_overlay:
  assumes "resolveMarker (commandAtViewport s) = Some m" and "line m = - 1"
  shows "refresh s = Returned (s\<lparr>this_currentStickyMarker := None\<rparr>) \<and>
         map_option textContent (this_element (finalState (refresh s))) =
           map_option textContent (this_element s) \<and>
         map_option display (this_element (finalState (refresh s))) =
           map_option display (this_element s) \<and>
         this_stickyScrollOverlay (finalState (refresh s)) = this_stickyScrollOverlay s"
proof -
  from commandAtViewport_SomeD [OF assms(1)] obtain x el cd where
    g: "this_xterm s = Some x" "element (raw x) = Some el"
      "commandDetection (this_instance s) = Some cd"
      "commandAtViewport s = getCommandForLine cd (viewportY (active (buffer (raw x))))"
    by auto
  with assms have "refresh s = Returned (s\<lparr>this_currentStickyMarker := None\<rparr>)"
    by (simp add: refresh_def Let_def)
  then show ?thesis by (simp add: finalState_def)
qed

text \<open>C4 at a command whose marker is disposed.\<close>

theorem invalid_marker_leaves_overlay_witness:
  "refresh (stateLoaded (Some disposedCommand) ''x'' twoLines) =
     Returned ((stateLoaded (Some disposedCommand) ''x'' twoLines)\<lparr>this_currentStickyMarker := None\<rparr>) \<and>
   this_stickyScrollOverlay (finalState (refresh (stateLoaded (Some disposedCommand) ''x'' twoLines))) =
     this_stickyScrollOverlay (stateLoaded (Some disposedCommand) ''x'' twoLines)"
proof -
  have a: "resolveMarker (commandAtViewport (stateLoaded (Some disposedCommand) ''x'' twoLines)) =
             Some disposedMarker"
    by (simp add: stateLoaded_fields disposedCommand_def resolveMarker_def)
  have b: "line disposedMarker = - 1" by (simp add: disposedMarker_def)
  from invalid_marker_leaves_overlay [OF a b] show ?thesis by (simp add: finalState_def)
qed

subsection \<open>Serialization and the overlay terminal\<close>




text \<open>
  Claim C6, as stated, makes the reset of the overlay terminal depend on the extracted content
  being non-empty. The reset is written before the buffer is serialized (line 118): with an
  addon that returns the empty string the content is empty and the overlay terminal has
  received the reset sequence.
\<close>

theorem reset_with_empty_content:
  "resolveMarker (commandAtViewport (stateLoaded (Some partialCommand) [] nothingSerialized)) =
     Some exampleMarker \<and>
   extractContent (nothingSerialized 58) = [] \<and>
   overlayWritten (stateLoaded (Some partialCommand) [] nothingSerialized) = [] \<and>
   returned (refresh (stateLoaded (Some partialCommand) [] nothingSerialized)) \<and>
   serializeInvocations (finalState (refresh (stateLoaded (Some partialCommand) [] nothingSerialized))) = [58] \<and>
   overlayWritten (finalState (refresh (stateLoaded (Some partialCommand) [] nothingSerialized))) =
     [resetSequence]"
  by (simp add: example_defs method_defs nothingSerialized_def extractContent_Nil Let_def)

text \<open>
  Claim C6, amended. For every refresh that reaches the overlay block, the overlay terminal
  is reset (cursor home, clear line) whatever the content is, and the extracted content is
  written after the reset exactly when it is non-empty.
\<close>

theorem overlay_reset_unconditional:
  assumes "this_xterm s = Some x"
    and "resolveMarker (commandAtViewport s) = Some m" and "line m \<noteq> - 1"
    and "this_stickyScrollOverlay s = Some ov"
    and "canEnsureElement s"
  shows "returned (refresh s) \<and>
         overlayWritten (finalState (refresh s)) =
           written ov @ [resetSequence] @
             (case this_serializeAddon s of
                None \<Rightarrow> []
              | Some a \<Rightarrow>
                  (let content = extractContent (serialize a (baseY (active (buffer (raw x))) - line m))
                   in if content = [] then [] else [content]))"
  using refresh_completes(1) [OF assms(1,2,3,5)] refresh_completes(2) [OF assms(1,2,3,5,4)]
  by simp

text \<open>C6 amended, with a non-empty and with an empty content.\<close>

theorem overlay_reset_unconditional_witness:
  "returned (refresh (stateLoaded (Some partialCommand) [] twoLines)) \<and>
   overlayWritten (finalState (refresh (stateLoaded (Some partialCommand) [] twoLines))) =
     [resetSequence, ''ls -la''] \<and>
   returned (refresh (stateLoaded (Some partialCommand) [] nothingSerialized)) \<and>
   overlayWritten (finalState (refresh (stateLoaded (Some partialCommand) [] nothingSerialized))) =
     [resetSequence]"
proof -
  have m: "resolveMarker (commandAtViewport (stateLoaded (Some partialCommand) [] f)) =
             Some exampleMarker" for f
    by (simp add: stateLoaded_fields partialCommand_resolved)
  from overlay_reset_unconditional
      [OF stateLoaded_fields(1) m partialCommand_resolved(2) stateLoaded_fields(2,6), of twoLines]
    overlay_reset_unconditional
      [OF stateLoaded_fields(1) m partialCommand_resolved(2) stateLoaded_fields(2,6),
        of nothingSerialized]
  show ?thesis
    by (simp add: stateLoaded_fields example_scrollback extractContent_twoLines
        nothingSerialized_def extractContent_Nil newTerminal_def)
qed

text \<open>
  Claim C9. When the serialize addon returns a non-empty string without a carriage return,
  \<^verbatim>\<open>indexOf\<close> is \<open>-1\<close>, the extracted content is the empty string, and the refresh
  writes nothing but the reset sequence to the overlay terminal.
\<close>

theorem no_line_break_writes_nothing:
  assumes "this_xterm s = Some x"
    and "resolveMarker (commandAtViewport s) = Some m" and "line m \<noteq> - 1"
    and "this_stickyScrollOverlay s = Some ov"
    and "this_serializeAddon s = Some a"
    and "canEnsureElement s"
    and "serialize a (baseY (active (buffer (raw x))) - line m) = str"
    and "str \<noteq> []" and "CR \<notin> set str"
  shows "indexOf str CR = - 1 \<and> extractContent str = [] \<and>
         returned (refresh s) \<and>
         overlayWritten (finalState (refresh s)) = written ov @ [resetSequence]"
  using refresh_completes(1) [OF assms(1,2,3,6)]
    refresh_completes(2) [OF assms(1,2,3,6,4)] assms(5,7,9)
  by (simp add: extractContent_no_CR indexOf_notin)

text \<open>C9 at a serialized buffer of one unbroken line.\<close>

theorem no_line_break_writes_nothing_witness:
  "indexOf ''ls -la'' CR = - 1 \<and> extractContent ''ls -la'' = [] \<and>
   returned (refresh (stateLoaded (Some partialCommand) [] unbrokenLine)) \<and>
   overlayWritten (finalState (refresh (stateLoaded (Some partialCommand) [] unbrokenLine))) =
     [resetSequence]"
proof -
  let ?s = "stateLoaded (Some partialCommand) [] unbrokenLine"
  have m: "resolveMarker (commandAtViewport ?s) = Some exampleMarker"
    by (simp add: stateLoaded_fields partialCommand_resolved)
  have r: "serialize \<lparr> serialize = unbrokenLine, serializeCalls = [] \<rparr>
             (baseY (active (buffer (raw (exampleXterm\<lparr>raw := terminal_loadAddon examplePrimary SerializeAddonRef\<rparr>))))
                - line exampleMarker) = ''ls -la''"
    by (simp add: unbrokenLine_def)
  have n: "''ls -la'' \<noteq> []" by simp
  have k: "CR \<notin> set ''ls -la''" by (simp add: CR_def)
  from no_line_break_writes_nothing
    [OF stateLoaded_fields(1) m partialCommand_resolved(2) stateLoaded_fields(2,3,6) r n k]
  show ?thesis
    by (simp add: newTerminal_def)
qed

subsection \<open>Visibility\<close>

text \<open>
  Claim C5 ties the element's visibility to the serialized content. Line 110 tests the
  element's \<^verbatim>\<open>textContent\<close> instead, before anything is serialized; the assignment that
  made the two agree is commented out on line 109. Two refreshes of the example terminal:
  the content \<^verbatim>\<open>ls -la\<close> is written and the element is hidden; the content is empty
  and the element is shown.
\<close>

theorem visibility_ignores_serialized_content:
  "extractContent (twoLines 58) = ''ls -la'' \<and>
   overlayWritten (finalState (refresh (stateLoaded (Some partialCommand) [] twoLines))) =
     [resetSequence, ''ls -la''] \<and>
   map_option display (this_element (finalState (refresh (stateLoaded (Some partialCommand) [] twoLines)))) =
     Some Hidden \<and>
   extractContent (nothingSerialized 58) = [] \<and>
   overlayWritten (finalState (refresh (stateLoaded (Some partialCommand) ''x'' nothingSerialized))) =
     [resetSequence] \<and>
   map_option display (this_element (finalState (refresh (stateLoaded (Some partialCommand) ''x'' nothingSerialized)))) =
     Some Shown"
  by (simp add: example_defs method_defs nothingSerialized_def extractContent_Nil
      extractContent_prefix CR_def LF_def Let_def)

text \<open>
  The buffer-change listener returns exactly when \<^verbatim>\<open>_ensureElement\<close> does, and then
  the element is shown exactly for the buffer type \<^verbatim>\<open>normal\<close>, whatever the sticky marker
  and the visibility were before.
\<close>

lemma onBufferChange_returned_iff:
  "returned (onBufferChange s bufferType) \<longleftrightarrow> canEnsureElement s"
proof (cases "canEnsureElement s")
  case True
  from ensureElement_can [OF this] obtain e s' where "ensureElement s = Returned (e, s')"
    by auto
  with True show ?thesis by (simp add: onBufferChange_def returned_def)
next
  case False
  from ensureElement_throws [OF this] obtain err s' where "ensureElement s = Threw err s'"
    by auto
  with False show ?thesis by (simp add: onBufferChange_def returned_def)
qed

lemma bufferChange_sets_visibility:
  assumes "canEnsureElement s"
  shows "returned (onBufferChange s bufferType) \<and>
         map_option display (this_element (finalState (onBufferChange s bufferType))) =
           Some (if bufferType = ''normal'' then Shown else Hidden)"
proof -
  from ensureElement_can [OF assms] obtain e s' where "ensureElement s = Returned (e, s')"
    by auto
  then show ?thesis
    by (simp add: onBufferChange_def returned_def finalState_def dom_setVisibility_def
        dom_show_def dom_hide_def)
qed

lemma bufferChange_sets_visibility_examples:
  "map_option display (this_element (finalState (onBufferChange (stateOverlay (Some partialCommand) ''x'') ''alt''))) = Some Hidden \<and>
   map_option display (this_element (finalState (onBufferChange stateSticky17 ''alt''))) = Some Hidden \<and>
   map_option display (this_element (finalState (onBufferChange stateSticky17 ''normal''))) = Some Shown"
proof -
  have a: "canEnsureElement (stateOverlay (Some partialCommand) ''x'')"
    by (rule stateOverlay_fields(6))
  have b: "canEnsureElement stateSticky17"
    by (simp add: stateSticky17_def canEnsureElement_marker stateLoaded_fields(6))
  from bufferChange_sets_visibility [OF a, of "''alt''"] bufferChange_sets_visibility [OF b, of "''alt''"]
    bufferChange_sets_visibility [OF b, of "''normal''"]
  show ?thesis by simp
qed

text \<open>
  Claim C7 asks that every buffer-change event leaves the overlay element visible exactly
  when the reported buffer type is \<^verbatim>\<open>normal\<close>, so that an \<^verbatim>\<open>alt\<close> event hides it. The
  listener is registered at line 56, before the overlay terminal exists (line 71) and
  whether or not the primary terminal is attached; \<^verbatim>\<open>_ensureElement\<close> assigns the new
  element at line 138 and then throws at line 152 or line 141, so \<^verbatim>\<open>setVisibility\<close> is
  never reached. Two \<^verbatim>\<open>alt\<close> events: one before the overlay terminal is constructed, one
  for a primary terminal that is not attached; each throws and leaves the element displayed.
\<close>

theorem bufferChange_before_overlay:
  "\<not> returned (onBufferChange (stateReady (Some partialCommand)) ''alt'') \<and>
   map_option display
     (this_element (finalState (onBufferChange (stateReady (Some partialCommand)) ''alt''))) =
     Some Shown \<and>
   \<not> returned (onBufferChange stateDetached ''alt'') \<and>
   map_option display (this_element (finalState (onBufferChange stateDetached ''alt''))) =
     Some Shown"
  by (simp add: stateDetached_def example_defs method_defs Let_def)

subsection \<open>Click on the hover overlay\<close>

text \<open>
  Claim C8. A click on the hover overlay while the terminal is set and a sticky marker with
  line \<open>L\<close> is recorded sends the primary terminal exactly one scroll-to-line request, for
  \<open>L\<close> with \<^verbatim>\<open>ScrollPosition.Middle\<close>, and changes nothing else; without a recorded
  marker the click changes nothing.
\<close>

theorem click_scrolls_to_marker:
  "(this_xterm s = Some x \<and> this_currentStickyMarker s = Some m \<longrightarrow>
      hoverOverlayClick s =
        s\<lparr>this_xterm := Some (x\<lparr>scrollToLineCalls := scrollToLineCalls x @ [(line m, Middle)]\<rparr>)\<rparr> \<and>
      scrollRequests (hoverOverlayClick s) = scrollRequests s @ [(line m, Middle)]) \<and>
   (this_currentStickyMarker s = None \<longrightarrow>
      hoverOverlayClick s = s \<and> scrollRequests (hoverOverlayClick s) = scrollRequests s)"
  by (simp add: hoverOverlayClick_def scrollToLine_def scrollRequests_def split: option.splits)

text \<open>C8 at the scenario of the spec, a sticky marker at line 17, and without a marker.\<close>

theorem click_scrolls_to_marker_witness:
  "scrollRequests (hoverOverlayClick stateSticky17) = [(17, Middle)] \<and>
   scrollRequests (hoverOverlayClick (stateLoaded (Some partialCommand) [] twoLines)) = []"
  using click_scrolls_to_marker
      [of stateSticky17 "exampleXterm\<lparr>raw := terminal_loadAddon examplePrimary SerializeAddonRef\<rparr>"
        "\<lparr> markerId = 3, line = 17 \<rparr>"]
    click_scrolls_to_marker [of "stateLoaded (Some partialCommand) [] twoLines"]
  by (simp add: stateSticky17_def example_defs scrollRequests_def)

end
